theory Spec2Isabelle
  imports Complex_Main "HOL-Library.Char_ord" "HOL-Library.List_Lexorder" "HOL-Library.Multiset"
    "HOL-Library.Product_Lexorder" "HOL-Library.Log_Nat"
begin

section \<open>Python values\<close>

text \<open>
  The service reads two kinds of dynamic data: the parsed JSON of the upstream odds
  provider and the arguments of the bookmaker registry, which the odds table calls with
  whatever the JSON holds. Both are values of \<open>json\<close>: Python's \<open>None\<close>, \<open>bool\<close>,
  \<open>int\<close>, \<open>float\<close> (by its exact value), \<open>str\<close>, \<open>list\<close> and \<open>dict\<close> (an association
  list in insertion order; a parsed object has no repeated key).

  A \<open>char\<close> stands for one code point below 256, so a \<open>string\<close> is a Python \<open>str\<close> over
  that range; \<open>str.lower\<close> and \<open>str.strip\<close> are modelled exactly there. Strings with
  higher code points are outside the model.
\<close>

datatype json =
    JNull
  | JBool bool
  | JInt int
  | JFloat rat
  | JStr string
  | JArr "json list"
  | JObj "(string \<times> json) list"

datatype py_error = AttributeError | TypeError | KeyError | JSONDecodeError

text \<open>Truth value testing: \<open>None\<close>, \<open>False\<close>, zero and the empty containers are falsy.\<close>

fun truthy :: "json \<Rightarrow> bool" where
  "truthy JNull = False"
| "truthy (JBool b) = b"
| "truthy (JInt i) = (i \<noteq> 0)"
| "truthy (JFloat r) = (r \<noteq> 0)"
| "truthy (JStr s) = (s \<noteq> [])"
| "truthy (JArr xs) = (xs \<noteq> [])"
| "truthy (JObj kvs) = (kvs \<noteq> [])"

text \<open>\<open>a or b\<close>.\<close>

definition py_or :: "json \<Rightarrow> json \<Rightarrow> json" where
  "py_or a b = (if truthy a then a else b)"

text \<open>An argument of type \<open>Optional[str]\<close> as a value.\<close>

fun opt_str :: "string option \<Rightarrow> json" where
  "opt_str None = JNull"
| "opt_str (Some s) = JStr s"

text \<open>
  \<open>str.isspace\<close> on one code point below 256: the characters \<open>str.strip()\<close> removes.
\<close>

definition isspace :: "char \<Rightarrow> bool" where
  "isspace c = (let n = (of_char c :: nat) in
     (9 \<le> n \<and> n \<le> 13) \<or> (28 \<le> n \<and> n \<le> 32) \<or> n = 133 \<or> n = 160)"

text \<open>
  \<open>str.lower\<close> on one code point below 256: \<open>A\<close> to \<open>Z\<close> and the Latin-1 capitals
  (\<open>0xC0\<close> to \<open>0xDE\<close>, but not the multiplication sign \<open>0xD7\<close>) move up by 32.
\<close>

definition lower_char :: "char \<Rightarrow> char" where
  "lower_char c = (let n = (of_char c :: nat) in
     if (65 \<le> n \<and> n \<le> 90) \<or> (192 \<le> n \<and> n \<le> 222 \<and> n \<noteq> 215)
     then char_of (n + 32) else c)"

definition lower :: "string \<Rightarrow> string" where
  "lower s = map lower_char s"

definition strip :: "string \<Rightarrow> string" where
  "strip s = rev (dropWhile isspace (rev (dropWhile isspace s)))"

section \<open>bookmaker.py: the bookmaker registry\<close>

definition BOOKMAKER_URLS :: "(string \<times> string) list" where
  "BOOKMAKER_URLS =
    [(''betright'', ''https://www.betright.com.au/''),
     (''betfair_ex_au'', ''https://www.betfair.com.au/exchange/''),
     (''betr'', ''https://www.betr.com.au/''),
     (''boombet'', ''https://www.boombet.com.au/''),
     (''ladbrokes'', ''https://www.ladbrokes.com.au/''),
     (''neds'', ''https://www.neds.com.au/''),
     (''playup'', ''https://www.playup.com.au/''),
     (''pointsbetau'', ''https://pointsbet.com.au/''),
     (''sportsbet'', ''https://www.sportsbet.com.au/''),
     (''tab'', ''https://www.tab.com.au/''),
     (''tabtouch'', ''https://www.tabtouch.com.au/''),
     (''unibet'', ''https://www.unibet.com.au/'')]"

definition ALIASES :: "(string \<times> string) list" where
  "ALIASES =
    [(''bet_right'', ''betright''),
     (''betfair'', ''betfair_ex_au''),
     (''pointsbet'', ''pointsbetau''),
     (''sportsbet_au'', ''sportsbet''),
     (''unibet_au'', ''unibet''),
     (''tab_au'', ''tab'')]"

definition CANONICAL_NAME :: "(string \<times> string) list" where
  "CANONICAL_NAME =
    [(''betfair_ex_au'', ''Betfair''),
     (''pointsbetau'', ''PointsBet (AU)''),
     (''sportsbet'', ''SportsBet''),
     (''tab'', ''TAB'')]"

text \<open>
  \<open>normalize_key\<close>: a falsy key gives the empty string; otherwise \<open>key.strip().lower()\<close>,
  which only a \<open>str\<close> has (any other truthy value raises \<open>AttributeError\<close>), looked up in
  \<open>ALIASES\<close> with itself as the default.
\<close>

definition normalize_key :: "json \<Rightarrow> py_error + string" where
  "normalize_key k =
    (if \<not> truthy k then Inr []
     else case k of
       JStr s \<Rightarrow>
         (let k' = lower (strip s)
          in Inr (case map_of ALIASES k' of Some c \<Rightarrow> c | None \<Rightarrow> k'))
     | _ \<Rightarrow> Inl AttributeError)"

text \<open>The dictionary \<open>get_bookmaker_meta\<close> returns, by its three keys.\<close>

record meta =
  meta_key :: json
  meta_name :: json
  meta_url :: "string option"

text \<open>
  \<open>get_bookmaker_meta\<close>:
  \<^verbatim>\<open>
    nk = normalize_key(key)
    url = BOOKMAKER_URLS.get(nk)
    name = CANONICAL_NAME.get(nk) or title or (key or "")
    return {"key": nk or (key or ""), "name": name, "url": url}
  \<close>
\<close>

definition get_bookmaker_meta :: "json \<Rightarrow> json \<Rightarrow> py_error + meta" where
  "get_bookmaker_meta k title =
    (case normalize_key k of
       Inl e \<Rightarrow> Inl e
     | Inr nk \<Rightarrow>
         Inr \<lparr> meta_key = py_or (JStr nk) (py_or k (JStr [])),
               meta_name =
                 py_or (case map_of CANONICAL_NAME nk of None \<Rightarrow> JNull | Some n \<Rightarrow> JStr n)
                   (py_or title (py_or k (JStr []))),
               meta_url = map_of BOOKMAKER_URLS nk \<rparr>)"

section \<open>routes_odds_table.py: the upstream table formatter\<close>

text \<open>
  Raising is a value: \<open>Inl e\<close> is the exception \<open>e\<close>, and \<open>ebind\<close> runs the next statement
  only when the one before returned. \<open>emap f xs\<close> is a loop over \<open>xs\<close> that stops at
  the first exception.
\<close>

definition ebind :: "'e + 'a \<Rightarrow> ('a \<Rightarrow> 'e + 'b) \<Rightarrow> 'e + 'b" where
  "ebind m f = (case m of Inl e \<Rightarrow> Inl e | Inr x \<Rightarrow> f x)"

fun emap :: "('a \<Rightarrow> 'e + 'b) \<Rightarrow> 'a list \<Rightarrow> 'e + 'b list" where
  "emap f [] = Inr []"
| "emap f (x # xs) =
     (case f x of
        Inl e \<Rightarrow> Inl e
      | Inr y \<Rightarrow> (case emap f xs of Inl e \<Rightarrow> Inl e | Inr ys \<Rightarrow> Inr (y # ys)))"

text \<open>\<open>d.get(k, default)\<close>: only a \<open>dict\<close> has the method.\<close>

definition py_get :: "json \<Rightarrow> string \<Rightarrow> json \<Rightarrow> py_error + json" where
  "py_get d k dflt =
    (case d of
       JObj kvs \<Rightarrow> Inr (case map_of kvs k of Some v \<Rightarrow> v | None \<Rightarrow> dflt)
     | _ \<Rightarrow> Inl AttributeError)"

text \<open>
  The elements a \<open>for\<close> loop visits: those of a list, the keys of a dict, the characters
  of a string; nothing else here is iterable.
\<close>

definition py_iter :: "json \<Rightarrow> py_error + json list" where
  "py_iter v =
    (case v of
       JArr xs \<Rightarrow> Inr xs
     | JObj kvs \<Rightarrow> Inr (map (\<lambda>kv. JStr (fst kv)) kvs)
     | JStr s \<Rightarrow> Inr (map (\<lambda>c. JStr [c]) s)
     | _ \<Rightarrow> Inl TypeError)"

text \<open>\<open>p in s\<close> for two strings: \<open>p\<close> occurs in \<open>s\<close> as a contiguous run.\<close>

fun occurs_in :: "string \<Rightarrow> string \<Rightarrow> bool" where
  "occurs_in p [] = (p = [])"
| "occurs_in p (c # cs) = (take (length p) (c # cs) = p \<or> occurs_in p cs)"

text \<open>
  \<open>k in v\<close> for a string \<open>k\<close>: a key of a dict, an element of a list, a substring of a
  string; any other \<open>v\<close> raises \<open>TypeError\<close>.
\<close>

definition py_in :: "string \<Rightarrow> json \<Rightarrow> py_error + bool" where
  "py_in k v =
    (case v of
       JObj kvs \<Rightarrow> Inr (map_of kvs k \<noteq> None)
     | JArr xs \<Rightarrow> Inr (JStr k \<in> set xs)
     | JStr s \<Rightarrow> Inr (occurs_in k s)
     | _ \<Rightarrow> Inl TypeError)"

text \<open>\<open>v[k]\<close> for a string \<open>k\<close>: only a dict can be indexed by a string.\<close>

definition py_item :: "json \<Rightarrow> string \<Rightarrow> py_error + json" where
  "py_item v k =
    (case v of
       JObj kvs \<Rightarrow> (case map_of kvs k of Some x \<Rightarrow> Inr x | None \<Rightarrow> Inl KeyError)
     | _ \<Rightarrow> Inl TypeError)"

text \<open>
  A replacement field of an f-string, \<open>{v}\<close>: a string stands for itself, any other value
  for its \<open>str()\<close>. Python's \<open>str()\<close> of numbers, \<open>None\<close>, lists and dicts is the parameter
  \<open>repr\<close> of the formatter.
\<close>

definition py_format :: "(json \<Rightarrow> string) \<Rightarrow> json \<Rightarrow> string" where
  "py_format repr v = (case v of JStr s \<Rightarrow> s | _ \<Rightarrow> repr v)"

text \<open>\<open>sep.join(parts)\<close>.\<close>

fun join :: "string \<Rightarrow> string list \<Rightarrow> string" where
  "join sep [] = []"
| "join sep [x] = x"
| "join sep (x # y # ys) = x @ sep @ join sep (y # ys)"

text \<open>\<open>all(k in v for k in ks)\<close>, which stops at the first key that is missing.\<close>

fun has_all :: "string list \<Rightarrow> json \<Rightarrow> py_error + bool" where
  "has_all [] v = Inr True"
| "has_all (k # ks) v =
     (case py_in k v of
        Inl e \<Rightarrow> Inl e
      | Inr b \<Rightarrow> if b then has_all ks v else Inr False)"

text \<open>The generator expression \<open>(f(x) for x in xs if cond(x))\<close>, consumed to its end.\<close>

fun gen_parts :: "('a \<Rightarrow> 'e + bool) \<Rightarrow> ('a \<Rightarrow> 'e + 'b) \<Rightarrow> 'a list \<Rightarrow> 'e + 'b list" where
  "gen_parts cond f [] = Inr []"
| "gen_parts cond f (x # xs) =
     (case cond x of
        Inl e \<Rightarrow> Inl e
      | Inr b \<Rightarrow>
          if b then
            (case f x of
               Inl e \<Rightarrow> Inl e
             | Inr y \<Rightarrow> (case gen_parts cond f xs of Inl e \<Rightarrow> Inl e | Inr ys \<Rightarrow> Inr (y # ys)))
          else gen_parts cond f xs)"

text \<open>
  \<open>_pick_market\<close>: the first market whose \<open>key\<close> is the one asked for, \<open>None\<close> when there is
  none. Nothing here is guarded: a \<open>markets\<close> value that cannot be iterated and an entry
  before the match that has no \<open>get\<close> both raise.
\<close>

fun pick_market_loop :: "json list \<Rightarrow> string \<Rightarrow> py_error + json" where
  "pick_market_loop [] k = Inr JNull"
| "pick_market_loop (m # ms) k =
     (case py_get m ''key'' JNull of
        Inl e \<Rightarrow> Inl e
      | Inr v \<Rightarrow> if v = JStr k then Inr m else pick_market_loop ms k)"

definition pick_market :: "json \<Rightarrow> string \<Rightarrow> py_error + json" where
  "pick_market markets k = ebind (py_iter markets) (\<lambda>ms. pick_market_loop ms k)"

text \<open>
  The three market formatters. Each \<open>..._try\<close> is the body of the \<open>try\<close> block, and the
  formatter returns the empty string for every exception the body raises
  (\<open>except Exception: return ""\<close>).
  \<^verbatim>\<open>
    outs = market.get("outcomes", [])
    return " / ".join(f"{o['name']}: {o['price']}" for o in outs if "name" in o and "price" in o)
  \<close>
\<close>

definition format_h2h_try :: "(json \<Rightarrow> string) \<Rightarrow> json \<Rightarrow> py_error + string" where
  "format_h2h_try repr market =
    ebind (py_get market ''outcomes'' (JArr [])) (\<lambda>outs.
    ebind (py_iter outs) (\<lambda>os.
    ebind (gen_parts (has_all [''name'', ''price''])
             (\<lambda>x. ebind (py_item x ''name'') (\<lambda>n.
                   ebind (py_item x ''price'') (\<lambda>p.
                   Inr (py_format repr n @ '': '' @ py_format repr p))))
             os) (\<lambda>parts.
    Inr (join '' / '' parts))))"

definition format_h2h :: "(json \<Rightarrow> string) \<Rightarrow> json \<Rightarrow> string" where
  "format_h2h repr market = (case format_h2h_try repr market of Inl e \<Rightarrow> [] | Inr s \<Rightarrow> s)"

text \<open>
  \<^verbatim>\<open>
    " / ".join(f"{o['name']}({o['point']}): {o['price']}"
               for o in outs if all(k in o for k in ("name", "point", "price")))
  \<close>
\<close>

definition format_spreads_try :: "(json \<Rightarrow> string) \<Rightarrow> json \<Rightarrow> py_error + string" where
  "format_spreads_try repr market =
    ebind (py_get market ''outcomes'' (JArr [])) (\<lambda>outs.
    ebind (py_iter outs) (\<lambda>os.
    ebind (gen_parts (has_all [''name'', ''point'', ''price''])
             (\<lambda>x. ebind (py_item x ''name'') (\<lambda>n.
                   ebind (py_item x ''point'') (\<lambda>pt.
                   ebind (py_item x ''price'') (\<lambda>p.
                   Inr (py_format repr n @ ''('' @ py_format repr pt @ ''): ''
                        @ py_format repr p)))))
             os) (\<lambda>parts.
    Inr (join '' / '' parts))))"

definition format_spreads :: "(json \<Rightarrow> string) \<Rightarrow> json \<Rightarrow> string" where
  "format_spreads repr market =
    (case format_spreads_try repr market of Inl e \<Rightarrow> [] | Inr s \<Rightarrow> s)"

text \<open>
  \<^verbatim>\<open>
    " / ".join(f"{o['name']} {o['point']}: {o['price']}"
               for o in outs if all(k in o for k in ("name", "point", "price")))
  \<close>
\<close>

definition format_totals_try :: "(json \<Rightarrow> string) \<Rightarrow> json \<Rightarrow> py_error + string" where
  "format_totals_try repr market =
    ebind (py_get market ''outcomes'' (JArr [])) (\<lambda>outs.
    ebind (py_iter outs) (\<lambda>os.
    ebind (gen_parts (has_all [''name'', ''point'', ''price''])
             (\<lambda>x. ebind (py_item x ''name'') (\<lambda>n.
                   ebind (py_item x ''point'') (\<lambda>pt.
                   ebind (py_item x ''price'') (\<lambda>p.
                   Inr (py_format repr n @ '' '' @ py_format repr pt @ '': ''
                        @ py_format repr p)))))
             os) (\<lambda>parts.
    Inr (join '' / '' parts))))"

definition format_totals :: "(json \<Rightarrow> string) \<Rightarrow> json \<Rightarrow> string" where
  "format_totals repr market =
    (case format_totals_try repr market of Inl e \<Rightarrow> [] | Inr s \<Rightarrow> s)"

text \<open>One row of the table: the dictionary \<open>row\<close> of the inner loop, by its keys.\<close>

record table_row =
  row_bookmaker :: json
  row_bookmaker_url :: "string option"
  row_match :: string
  row_start :: json
  row_h2h :: string
  row_spreads :: string
  row_totals :: string

text \<open>
  The body of the loop over \<open>ev.get("bookmakers", [])\<close>. The statements run in the
  source's order: the two \<open>bm.get\<close> calls, \<open>get_bookmaker_meta\<close>, \<open>bm.get("markets", [])\<close>,
  then the three columns, each \<open>_format_x(_pick_market(bm_markets, x)) or ""\<close>
  (\<open>s or ""\<close> is \<open>s\<close> for a string \<open>s\<close>).
\<close>

definition bookmaker_row ::
  "(json \<Rightarrow> string) \<Rightarrow> string \<Rightarrow> json \<Rightarrow> json \<Rightarrow> py_error + table_row" where
  "bookmaker_row repr match_label start bm =
    ebind (py_get bm ''key'' JNull) (\<lambda>k.
    ebind (py_get bm ''title'' JNull) (\<lambda>title.
    ebind (get_bookmaker_meta k title) (\<lambda>m.
    ebind (py_get bm ''markets'' (JArr [])) (\<lambda>bm_markets.
    ebind (pick_market bm_markets ''h2h'') (\<lambda>h2h.
    ebind (pick_market bm_markets ''spreads'') (\<lambda>spreads.
    ebind (pick_market bm_markets ''totals'') (\<lambda>totals.
    Inr \<lparr> row_bookmaker = meta_name m,
          row_bookmaker_url = meta_url m,
          row_match = match_label,
          row_start = start,
          row_h2h = format_h2h repr h2h,
          row_spreads = format_spreads repr spreads,
          row_totals = format_totals repr totals \<rparr>)))))))"

text \<open>
  The sort key \<open>(r["bookmaker"] or "").lower()\<close>: a falsy name counts as the empty string,
  and only a string has \<open>lower\<close>.
\<close>

definition sort_name :: "table_row \<Rightarrow> py_error + string" where
  "sort_name r =
    (case py_or (row_bookmaker r) (JStr []) of
       JStr s \<Rightarrow> Inr (lower s)
     | _ \<Rightarrow> Inl AttributeError)"

definition sort_name_of :: "table_row \<Rightarrow> string" where
  "sort_name_of r = (case sort_name r of Inr s \<Rightarrow> s | Inl e \<Rightarrow> [])"

text \<open>
  \<open>rows.sort(key=...)\<close>: the keys of all rows are computed first (the first that raises
  ends the sort), then the rows are sorted by key. \<open>list.sort\<close> is stable and compares
  strings code point by code point, as \<open>sort_key\<close> does on \<open>string\<close>.
\<close>

definition sort_rows :: "table_row list \<Rightarrow> py_error + table_row list" where
  "sort_rows rows = ebind (emap sort_name rows) (\<lambda>keys. Inr (sort_key sort_name_of rows))"

text \<open>One entry of \<open>matches\<close>, by its keys.\<close>

record odds_match =
  match_id :: json
  match_label :: string
  match_start :: json
  match_rows :: "table_row list"

text \<open>
  The body of the loop over the events, in two halves. \<open>event_rows\<close> runs up to the end
  of the inner loop and gives \<open>match_label\<close>, \<open>start\<close> and \<open>rows\<close> as they are just before
  \<open>rows.sort\<close>: one row for each bookmaker entry, in the order of the upstream document.
  \<open>format_event\<close> sorts the rows and builds the entry of \<open>matches\<close>.
\<close>

definition event_rows ::
  "(json \<Rightarrow> string) \<Rightarrow> json \<Rightarrow> py_error + (string \<times> json \<times> table_row list)" where
  "event_rows repr ev =
    ebind (py_get ev ''home_team'' (JStr ''?'')) (\<lambda>home.
    ebind (py_get ev ''away_team'' (JStr ''?'')) (\<lambda>away.
    ebind (py_get ev ''commence_time'' (JStr [])) (\<lambda>start.
    ebind (py_get ev ''bookmakers'' (JArr [])) (\<lambda>bms.
    ebind (py_iter bms) (\<lambda>bs.
    ebind (emap (bookmaker_row repr (py_format repr home @ '' vs '' @ py_format repr away) start)
             bs) (\<lambda>rows.
    Inr (py_format repr home @ '' vs '' @ py_format repr away, start, rows)))))))"

definition format_event :: "(json \<Rightarrow> string) \<Rightarrow> json \<Rightarrow> py_error + odds_match" where
  "format_event repr ev =
    ebind (event_rows repr ev) (\<lambda>(label, start, rows).
    ebind (sort_rows rows) (\<lambda>sorted_rows.
    ebind (py_get ev ''id'' JNull) (\<lambda>i.
    Inr \<lparr> match_id = i, match_label = label, match_start = start,
          match_rows = sorted_rows \<rparr>)))"

text \<open>The response dictionaries, as the JSON values \<open>JSONResponse\<close> is given.\<close>

definition row_json :: "table_row \<Rightarrow> json" where
  "row_json r =
    JObj [(''bookmaker'', row_bookmaker r),
          (''bookmaker_url'', opt_str (row_bookmaker_url r)),
          (''match'', JStr (row_match r)),
          (''start'', row_start r),
          (''h2h'', JStr (row_h2h r)),
          (''spreads'', JStr (row_spreads r)),
          (''totals'', JStr (row_totals r))]"

definition match_json :: "odds_match \<Rightarrow> json" where
  "match_json m =
    JObj [(''id'', match_id m),
          (''match'', JStr (match_label m)),
          (''start'', match_start m),
          (''rows'', JArr (map row_json (match_rows m)))]"

definition columns :: "string list" where
  "columns = [''bookmaker'', ''match'', ''h2h'', ''spreads'', ''totals'', ''start'', ''bookmaker_url'']"

text \<open>
  The upstream response \<open>r\<close> of \<open>client.get\<close>: its status code, its body as text
  (\<open>r.text\<close>) and the document \<open>r.json()\<close> parses from it (\<open>None\<close> when the body is not
  JSON and \<open>r.json()\<close> raises). A request that gets no response at all (a timeout, a
  refused connection) raises in \<open>client.get\<close> and is outside this model.
\<close>

record upstream =
  up_status :: int
  up_text :: string
  up_json :: "json option"

record response =
  resp_status :: int
  resp_content :: json

text \<open>
  \<open>odds_table\<close>, from the upstream response on. The query parameters only build the
  upstream request. The \<open>print\<close> of the body before the \<open>return\<close> writes to the
  standard output and is left out.
\<close>

definition odds_table :: "(json \<Rightarrow> string) \<Rightarrow> upstream \<Rightarrow> py_error + response" where
  "odds_table repr r =
    (if up_status r \<noteq> 200
     then Inr \<lparr> resp_status = up_status r,
                resp_content = JObj [(''error'', JStr (up_text r))] \<rparr>
     else
       ebind (case up_json r of None \<Rightarrow> Inl JSONDecodeError | Some d \<Rightarrow> Inr d) (\<lambda>events.
       ebind (py_iter events) (\<lambda>evs.
       ebind (emap (format_event repr) evs) (\<lambda>matches.
       Inr \<lparr> resp_status = 200,
             resp_content =
               JObj [(''columns'', JArr (map JStr columns)),
                     (''matches'', JArr (map match_json matches))] \<rparr>))))"

text \<open>
  The body \<open>JSONResponse\<close> sends for a content: \<open>json.dumps\<close> with the separators \<open>,\<close> and
  \<open>:\<close> and \<open>ensure_ascii=False\<close>. A string is written between double quotes, with the
  quote, the backslash and the control characters escaped; a number by its \<open>repr\<close>.
\<close>

definition hex_digit :: "nat \<Rightarrow> char" where
  "hex_digit n = (''0123456789abcdef'') ! (n mod 16)"

definition json_escape_char :: "char \<Rightarrow> string" where
  "json_escape_char c =
    (let n = (of_char c :: nat) in
     if n = 34 then [CHR 0x5C, CHR 0x22]
     else if n = 92 then [CHR 0x5C, CHR 0x5C]
     else if n = 10 then [CHR 0x5C, CHR ''n'']
     else if n = 13 then [CHR 0x5C, CHR ''r'']
     else if n = 9 then [CHR 0x5C, CHR ''t'']
     else if n = 8 then [CHR 0x5C, CHR ''b'']
     else if n = 12 then [CHR 0x5C, CHR ''f'']
     else if n < 32 then [CHR 0x5C, CHR ''u'', CHR ''0'', CHR ''0'', hex_digit (n div 16), hex_digit n]
     else [c])"

definition json_quote :: "string \<Rightarrow> string" where
  "json_quote s = CHR 0x22 # concat (map json_escape_char s) @ [CHR 0x22]"

primrec json_dumps :: "(json \<Rightarrow> string) \<Rightarrow> json \<Rightarrow> string" where
  "json_dumps repr JNull = ''null''"
| "json_dumps repr (JBool b) = (if b then ''true'' else ''false'')"
| "json_dumps repr (JInt i) = repr (JInt i)"
| "json_dumps repr (JFloat x) = repr (JFloat x)"
| "json_dumps repr (JStr s) = json_quote s"
| "json_dumps repr (JArr xs) = ''['' @ join '','' (map (json_dumps repr) xs) @ '']''"
| "json_dumps repr (JObj kvs) =
     ''{'' @ join '','' (map (\<lambda>kv. json_quote (fst kv) @ '':'' @ snd kv)
                          (map (map_prod id (json_dumps repr)) kvs)) @ ''}''"

definition response_body :: "(json \<Rightarrow> string) \<Rightarrow> response \<Rightarrow> string" where
  "response_body repr resp = json_dumps repr (resp_content resp)"

section \<open>main.py: the snapshot table and the read endpoints\<close>

text \<open>
  Modelled from the spec: the declaration of the table \<open>dbo.AFL_2025_odds\<close> is not in
  the repository. The spec describes it as one append-only snapshot table keyed by
  (event id, bookmaker key, snapshot time), holding team names, commence time and the
  price and point columns of the three markets. The key columns, the sport key and the
  commence time are never \<open>NULL\<close>; a team name, a bookmaker title, a price or a point
  may be. A \<open>datetime\<close> is a number of seconds on one time line, and a \<open>decimal\<close> column
  holds a rational number (\<open>pyodbc\<close> returns it as a \<open>Decimal\<close>).

  The store is a list of rows; a query is a function of it. A query that fails (a lost
  connection, a rejected statement) is outside this model.
\<close>

record snapshot_row =
  event_id :: string
  sport_key :: string
  home_team :: "string option"
  away_team :: "string option"
  commence_time :: int
  bookmaker_key :: string
  bookmaker_title :: "string option"
  snapshot_at :: int
  home_h2h_price :: "rat option"
  away_h2h_price :: "rat option"
  home_spread_price :: "rat option"
  home_spread_point :: "rat option"
  away_spread_price :: "rat option"
  away_spread_point :: "rat option"
  over_total_price :: "rat option"
  over_total_point :: "rat option"
  under_total_price :: "rat option"
  under_total_point :: "rat option"

datatype http_error = HTTPException int string | RequestValidationError

text \<open>
  Python's floating point is a parameter of the endpoints: \<open>float_of\<close> is \<open>float(d)\<close> for a
  \<open>Decimal\<close> \<open>d\<close>, \<open>fsum\<close> is \<open>sum(xs)\<close> for a list of floats and \<open>fdiv x n\<close> is \<open>x / n\<close> for
  a float \<open>x\<close> and the integer \<open>n\<close>. Floats are compared by the order of their type.
\<close>

record 'f float_ops =
  float_of :: "rat \<Rightarrow> 'f"
  fsum :: "'f list \<Rightarrow> 'f"
  fdiv :: "'f \<Rightarrow> nat \<Rightarrow> 'f"

text \<open>
  \<open>float(x) if x else None\<close> for a column value \<open>x\<close>: \<open>NULL\<close> arrives as \<open>None\<close>, and a
  \<open>Decimal\<close> is falsy exactly when it is zero.
\<close>

definition opt_float :: "'f float_ops \<Rightarrow> rat option \<Rightarrow> 'f option" where
  "opt_float ops x =
    (case x of None \<Rightarrow> None | Some d \<Rightarrow> if d \<noteq> 0 then Some (float_of ops d) else None)"

text \<open>
  \<open>BookmakerOdds\<close>, with the nested dictionaries \<open>h2h\<close>, \<open>spreads\<close> and \<open>totals\<close> flattened:
  \<open>spreads_home_price\<close> is \<open>spreads["home"]["price"]\<close>.
\<close>

record 'f bookmaker_odds =
  odds_bookmaker_key :: string
  odds_bookmaker_title :: "string option"
  last_update :: "int option"
  h2h_home :: "'f option"
  h2h_away :: "'f option"
  spreads_home_price :: "'f option"
  spreads_home_point :: "'f option"
  spreads_away_price :: "'f option"
  spreads_away_point :: "'f option"
  totals_over_price :: "'f option"
  totals_over_point :: "'f option"
  totals_under_price :: "'f option"
  totals_under_point :: "'f option"

text \<open>
  The \<open>BookmakerOdds(...)\<close> that \<open>get_sport_events\<close> and \<open>get_event_detail\<close> build from one
  row, with the same expressions in both.
\<close>

definition bookmaker_odds_of :: "'f float_ops \<Rightarrow> snapshot_row \<Rightarrow> 'f bookmaker_odds" where
  "bookmaker_odds_of ops r =
    \<lparr> odds_bookmaker_key = bookmaker_key r,
      odds_bookmaker_title = bookmaker_title r,
      last_update = Some (snapshot_at r),
      h2h_home = opt_float ops (home_h2h_price r),
      h2h_away = opt_float ops (away_h2h_price r),
      spreads_home_price = opt_float ops (home_spread_price r),
      spreads_home_point = opt_float ops (home_spread_point r),
      spreads_away_price = opt_float ops (away_spread_price r),
      spreads_away_point = opt_float ops (away_spread_point r),
      totals_over_price = opt_float ops (over_total_price r),
      totals_over_point = opt_float ops (over_total_point r),
      totals_under_price = opt_float ops (under_total_price r),
      totals_under_point = opt_float ops (under_total_point r) \<rparr>"

text \<open>\<open>MAX(snapshot_at)\<close> of a set of rows: \<open>NULL\<close> when there is no row.\<close>

definition latest_snapshot :: "snapshot_row list \<Rightarrow> int option" where
  "latest_snapshot rows =
    (case rows of [] \<Rightarrow> None | r # rs \<Rightarrow> Some (foldl max (snapshot_at r) (map snapshot_at rs)))"

subsection \<open>The event list\<close>

text \<open>
  One row of the event list query: the columns of \<open>RelevantEvents\<close>, the row of the table
  joined to it, and the computed column \<open>is_live\<close>.
\<close>

record event_row =
  re_event_id :: string
  re_home_team :: "string option"
  re_away_team :: "string option"
  re_commence_time :: int
  re_odds :: snapshot_row
  re_is_live :: bool

text \<open>
  The query of \<open>get_sport_events\<close> at the time \<open>now\<close> (\<open>GETDATE()\<close>): the events of the
  sport's latest snapshot that have not yet started, each joined with the rows of that
  snapshot for the same event id, \<open>ORDER BY re.commence_time, re.event_id,
  o.bookmaker_key\<close>. The order among bookmaker keys is the server collation's; the model
  takes the order of \<open>string\<close>.
\<close>

definition events_query :: "snapshot_row list \<Rightarrow> int \<Rightarrow> string \<Rightarrow> event_row list" where
  "events_query table now sk =
    (let latest = latest_snapshot (filter (\<lambda>x. sport_key x = sk) table);
         current = filter (\<lambda>x. sport_key x = sk \<and> Some (snapshot_at x) = latest) table;
         relevant = remdups (map (\<lambda>x. (event_id x, home_team x, away_team x, commence_time x))
                      (filter (\<lambda>x. commence_time x > now) current))
     in sort_key (\<lambda>r. (re_commence_time r, re_event_id r, bookmaker_key (re_odds r)))
          (concat (map (\<lambda>(eid, home, away, ct).
             map (\<lambda>x. \<lparr> re_event_id = eid, re_home_team = home, re_away_team = away,
                         re_commence_time = ct, re_odds = x, re_is_live = (ct \<le> now) \<rparr>)
               (filter (\<lambda>x. event_id x = eid) current)) relevant)))"

record 'f event =
  ev_event_id :: string
  ev_sport_key :: string
  ev_home_team :: "string option"
  ev_away_team :: "string option"
  ev_commence_time :: int
  ev_bookmakers :: "'f bookmaker_odds list"
  ev_is_live :: bool

text \<open>
  The loop that fills \<open>events_dict\<close>, a dictionary in insertion order: the first row of an
  event id creates its entry, every row appends its \<open>BookmakerOdds\<close>.
\<close>

fun group_events ::
  "'f float_ops \<Rightarrow> string \<Rightarrow> event_row list \<Rightarrow> (string \<times> 'f event) list
     \<Rightarrow> (string \<times> 'f event) list" where
  "group_events ops sk [] events_dict = events_dict"
| "group_events ops sk (row # rows) events_dict =
     (let d = (if map_of events_dict (re_event_id row) = None
               then events_dict @
                      [(re_event_id row,
                        \<lparr> ev_event_id = re_event_id row,
                          ev_sport_key = sk,
                          ev_home_team = re_home_team row,
                          ev_away_team = re_away_team row,
                          ev_commence_time = re_commence_time row,
                          ev_bookmakers = [],
                          ev_is_live = re_is_live row \<rparr>)]
               else events_dict)
      in group_events ops sk rows
           (map (\<lambda>(k, e).
              if k = re_event_id row
              then (k, e\<lparr> ev_bookmakers := ev_bookmakers e @ [bookmaker_odds_of ops (re_odds row)] \<rparr>)
              else (k, e)) d))"

text \<open>
  \<open>get_sport_events\<close>. The list \<open>time_filters\<close> always holds its one condition, so the
  400 response is never sent; the branch is kept as the source has it.
\<close>

definition get_sport_events ::
  "'f float_ops \<Rightarrow> snapshot_row list \<Rightarrow> int \<Rightarrow> string \<Rightarrow> http_error + 'f event list" where
  "get_sport_events ops table now sk =
    (let time_filters = [''(o.commence_time > GETDATE())'']
     in if time_filters = []
        then Inl (HTTPException 400 ''Must select at least one event type'')
        else
          (let rows = events_query table now sk
           in if rows = [] then Inr []
              else Inr (sort_key ev_commence_time (map snd (group_events ops sk rows [])))))"

subsection \<open>The event detail\<close>

text \<open>
  The query of \<open>get_event_detail\<close>: the rows of the event at its own latest snapshot,
  \<open>ORDER BY o.bookmaker_key\<close>.
\<close>

definition detail_query :: "snapshot_row list \<Rightarrow> string \<Rightarrow> snapshot_row list" where
  "detail_query table eid =
    (let latest = latest_snapshot (filter (\<lambda>x. event_id x = eid) table)
     in sort_key bookmaker_key
          (filter (\<lambda>x. event_id x = eid \<and> Some (snapshot_at x) = latest) table))"

record 'f comparison =
  best :: 'f
  worst :: 'f
  average :: 'f

text \<open>
  \<open>max(xs)\<close> and \<open>min(xs)\<close> of a list with first element \<open>x\<close>: the builtins keep the first
  element and replace it by each later one that is greater (smaller).
\<close>

definition py_max :: "'f::linorder \<Rightarrow> 'f list \<Rightarrow> 'f" where
  "py_max x xs = foldl (\<lambda>m y. if y > m then y else m) x xs"

definition py_min :: "'f::linorder \<Rightarrow> 'f list \<Rightarrow> 'f" where
  "py_min x xs = foldl (\<lambda>m y. if y < m then y else m) x xs"

text \<open>
  One side of the comparison: nothing is stored under \<open>name\<close> when no price was
  collected,
  \<^verbatim>\<open>
    if prices:
        event_detail["odds_comparison"][name] = {
            "best": max(prices), "worst": min(prices),
            "average": sum(prices) / len(prices)}
  \<close>
\<close>

definition comparison_entry ::
  "('f::linorder) float_ops \<Rightarrow> string \<Rightarrow> 'f list \<Rightarrow> (string \<times> 'f comparison) list" where
  "comparison_entry ops name prices =
    (case prices of
       [] \<Rightarrow> []
     | p # ps \<Rightarrow>
         [(name, \<lparr> best = py_max p ps, worst = py_min p ps,
                   average = fdiv ops (fsum ops prices) (length prices) \<rparr>)])"

text \<open>
  The prices collected for one side: \<open>if row[8]: h2h_home_prices.append(float(row[8]))\<close>
  over all rows.
\<close>

definition collect_prices ::
  "'f float_ops \<Rightarrow> (snapshot_row \<Rightarrow> rat option) \<Rightarrow> snapshot_row list \<Rightarrow> 'f list" where
  "collect_prices ops col rows =
    concat (map (\<lambda>r. case col r of
                        None \<Rightarrow> []
                      | Some d \<Rightarrow> if d \<noteq> 0 then [float_of ops d] else []) rows)"

record 'f event_detail =
  ed_event_id :: string
  ed_sport_key :: string
  ed_home_team :: "string option"
  ed_away_team :: "string option"
  ed_commence_time :: int
  current_odds :: "'f bookmaker_odds list"
  odds_comparison :: "(string \<times> 'f comparison) list"

definition get_event_detail ::
  "('f::linorder) float_ops \<Rightarrow> snapshot_row list \<Rightarrow> string \<Rightarrow> http_error + 'f event_detail" where
  "get_event_detail ops table eid =
    (case detail_query table eid of
       [] \<Rightarrow> Inl (HTTPException 404 ''Event not found'')
     | first_row # rest \<Rightarrow>
         (let rows = first_row # rest
          in Inr \<lparr> ed_event_id = eid,
                   ed_sport_key = sport_key first_row,
                   ed_home_team = home_team first_row,
                   ed_away_team = away_team first_row,
                   ed_commence_time = commence_time first_row,
                   current_odds = map (bookmaker_odds_of ops) rows,
                   odds_comparison =
                     comparison_entry ops ''h2h_home'' (collect_prices ops home_h2h_price rows)
                     @ comparison_entry ops ''h2h_away'' (collect_prices ops away_h2h_price rows) \<rparr>))"

subsection \<open>The odds history\<close>

text \<open>
  The first query of \<open>get_event_history\<close>, \<open>SELECT TOP 1 home_team, away_team ... WHERE
  event_id = ?\<close>: a row of the event, whatever its snapshot time, or nothing. Which row
  the server picks is not fixed; the model takes the first of the table.
\<close>

definition info_query :: "snapshot_row list \<Rightarrow> string \<Rightarrow> (string option \<times> string option) option" where
  "info_query table eid =
    (case filter (\<lambda>x. event_id x = eid) table of
       [] \<Rightarrow> None
     | r # rs \<Rightarrow> Some (home_team r, away_team r))"

text \<open>
  The second query: the rows of the event with
  \<open>snapshot_at >= DATEADD(hour, -hours, GETDATE())\<close>, of one bookmaker when the parameter
  \<open>bookmaker\<close> is a non-empty string, \<open>ORDER BY snapshot_at ASC, bookmaker_key\<close>. The source
  pastes the parameter into the statement between single quotes; the model reads that
  as the comparison \<open>bookmaker_key = bookmaker\<close>, which is what the statement means for a
  parameter without a single quote.
\<close>

definition history_query ::
  "snapshot_row list \<Rightarrow> int \<Rightarrow> string \<Rightarrow> int \<Rightarrow> string option \<Rightarrow> snapshot_row list" where
  "history_query table now eid hours bookmaker =
    sort_key (\<lambda>x. (snapshot_at x, bookmaker_key x))
      (filter (\<lambda>x. event_id x = eid
                  \<and> snapshot_at x \<ge> now - 3600 * hours
                  \<and> (case bookmaker of
                       None \<Rightarrow> True
                     | Some b \<Rightarrow> if b \<noteq> [] then bookmaker_key x = b else True)) table)"

record 'f odds_history_point =
  pt_timestamp :: int
  pt_bookmaker :: string
  pt_market_type :: string
  pt_values :: "(string \<times> 'f option) list"

record 'f odds_history =
  oh_event_id :: string
  oh_home_team :: "string option"
  oh_away_team :: "string option"
  oh_market_type :: string
  oh_bookmaker :: "string option"
  history :: "'f odds_history_point list"

text \<open>The dictionary \<open>point.values\<close> of one row, by the \<open>if\<close>/\<open>elif\<close> chain on the market type.\<close>

definition point_values ::
  "'f float_ops \<Rightarrow> string \<Rightarrow> snapshot_row \<Rightarrow> (string \<times> 'f option) list" where
  "point_values ops market_type r =
    (if market_type = ''h2h'' then
       [(''home'', opt_float ops (home_h2h_price r)),
        (''away'', opt_float ops (away_h2h_price r))]
     else if market_type = ''spreads'' then
       [(''home_price'', opt_float ops (home_spread_price r)),
        (''home_point'', opt_float ops (home_spread_point r)),
        (''away_price'', opt_float ops (away_spread_price r)),
        (''away_point'', opt_float ops (away_spread_point r))]
     else if market_type = ''totals'' then
       [(''over_price'', opt_float ops (over_total_price r)),
        (''over_point'', opt_float ops (over_total_point r)),
        (''under_price'', opt_float ops (under_total_price r)),
        (''under_point'', opt_float ops (under_total_point r))]
     else [])"

text \<open>
  \<open>get_event_history\<close>. The framework checks the query parameters before the function
  runs: \<open>market_type\<close> against \<open>^(h2h|spreads|totals)$\<close>, \<open>hours\<close> against \<open>ge=1, le=168\<close>.
\<close>

definition get_event_history ::
  "'f float_ops \<Rightarrow> snapshot_row list \<Rightarrow> int \<Rightarrow> string \<Rightarrow> string \<Rightarrow> string option \<Rightarrow> int
     \<Rightarrow> http_error + 'f odds_history" where
  "get_event_history ops table now eid market_type bookmaker hours =
    (if market_type \<notin> {''h2h'', ''spreads'', ''totals''} \<or> hours < 1 \<or> 168 < hours
     then Inl RequestValidationError
     else
       (case info_query table eid of
          None \<Rightarrow> Inl (HTTPException 404 ''Event not found'')
        | Some (home, away) \<Rightarrow>
            (let rows = history_query table now eid hours bookmaker
             in if rows = []
                then Inr \<lparr> oh_event_id = eid, oh_home_team = home, oh_away_team = away,
                           oh_market_type = market_type, oh_bookmaker = bookmaker,
                           history = [] \<rparr>
                else Inr \<lparr> oh_event_id = eid, oh_home_team = home, oh_away_team = away,
                           oh_market_type = market_type, oh_bookmaker = bookmaker,
                           history =
                             map (\<lambda>r. \<lparr> pt_timestamp = snapshot_at r,
                                         pt_bookmaker = bookmaker_key r,
                                         pt_market_type = market_type,
                                         pt_values = point_values ops market_type r \<rparr>) rows \<rparr>)))"

section \<open>Python floats as IEEE 754 doubles\<close>






section \<open>Predicates and sample data of the statements\<close>


text \<open>
  An upstream event with three bookmaker entries, given in the order TAB, Unibet (under
  its alias key), betr. Only the first has a market.
\<close>

definition sample_event :: json where
  "sample_event =
    JObj [(''id'', JStr ''E1''),
          (''home_team'', JStr ''Cats''),
          (''away_team'', JStr ''Lions''),
          (''commence_time'', JStr ''2025-09-27T04:30:00Z''),
          (''bookmakers'',
           JArr [JObj [(''key'', JStr ''tab''), (''title'', JStr ''TAB''),
                       (''markets'',
                        JArr [JObj [(''key'', JStr ''h2h''),
                                    (''outcomes'',
                                     JArr [JObj [(''name'', JStr ''Cats''), (''price'', JInt 2)],
                                           JObj [(''name'', JStr ''Lions'')]])]])],
                 JObj [(''key'', JStr ''unibet_au''), (''title'', JStr ''Unibet''),
                       (''markets'', JArr [])],
                 JObj [(''key'', JStr ''betr''), (''title'', JStr ''betr'')]])]"


text \<open>The values of a list of optional values that are not \<open>None\<close>, in order.\<close>

definition non_absent :: "'a option list \<Rightarrow> 'a list" where
  "non_absent xs = concat (map (\<lambda>v. case v of None \<Rightarrow> [] | Some x \<Rightarrow> [x]) xs)"

text \<open>
  The comparison of one side as the specification words it: nothing for an empty list of
  prices, otherwise the maximum, the minimum and the mean (the sum divided by the
  count, in the arithmetic of the floats).
\<close>

definition spec_side_comparison :: "('f::linorder) float_ops \<Rightarrow> 'f list \<Rightarrow> 'f comparison option" where
  "spec_side_comparison ops prices =
    (if prices = [] then None
     else Some \<lparr> best = Max (set prices), worst = Min (set prices),
                 average = fdiv ops (fsum ops prices) (length prices) \<rparr>)"

text \<open>Float operations without rounding: every float is a rational number.\<close>

definition exact_ops :: "rat float_ops" where
  "exact_ops = \<lparr> float_of = (\<lambda>d. d), fsum = sum_list, fdiv = (\<lambda>x n. x / of_nat n) \<rparr>"

text \<open>
  A row of the table for the event \<open>E1\<close>: a bookmaker key, a snapshot time and the two
  head-to-head prices; the spread and totals columns are \<open>NULL\<close>.
\<close>

definition sample_row :: "string \<Rightarrow> int \<Rightarrow> rat option \<Rightarrow> rat option \<Rightarrow> snapshot_row" where
  "sample_row bk t home away =
    \<lparr> event_id = ''E1'', sport_key = ''aussierules_afl'',
      home_team = Some ''Cats'', away_team = Some ''Lions'', commence_time = 2000000,
      bookmaker_key = bk, bookmaker_title = None, snapshot_at = t,
      home_h2h_price = home, away_h2h_price = away,
      home_spread_price = None, home_spread_point = None,
      away_spread_price = None, away_spread_point = None,
      over_total_price = None, over_total_point = None,
      under_total_price = None, under_total_point = None \<rparr>"

text \<open>The value of a price or point column that stands for "not offered".\<close>

definition not_offered :: "rat option \<Rightarrow> bool" where
  "not_offered v = (v = None \<or> v = Some 0)"

text \<open>The ten price and point columns of a row, and the ten fields of a \<open>BookmakerOdds\<close>
  they are copied to, in the same order.\<close>

definition price_columns :: "snapshot_row \<Rightarrow> rat option list" where
  "price_columns r =
    [home_h2h_price r, away_h2h_price r,
     home_spread_price r, home_spread_point r, away_spread_price r, away_spread_point r,
     over_total_price r, over_total_point r, under_total_price r, under_total_point r]"

definition odds_fields :: "'f bookmaker_odds \<Rightarrow> 'f option list" where
  "odds_fields b =
    [h2h_home b, h2h_away b,
     spreads_home_price b, spreads_home_point b, spreads_away_price b, spreads_away_point b,
     totals_over_price b, totals_over_point b, totals_under_price b, totals_under_point b]"

text \<open>The columns of one market, in the order of the history point's \<open>values\<close>.\<close>

definition market_columns :: "string \<Rightarrow> snapshot_row \<Rightarrow> rat option list" where
  "market_columns market_type r =
    (if market_type = ''h2h'' then [home_h2h_price r, away_h2h_price r]
     else if market_type = ''spreads'' then
       [home_spread_price r, home_spread_point r, away_spread_price r, away_spread_point r]
     else if market_type = ''totals'' then
       [over_total_price r, over_total_point r, under_total_price r, under_total_point r]
     else [])"

text \<open>
  An output field \<open>out\<close> shows the column value \<open>v\<close> with zero as absent: it is \<open>None\<close> when
  \<open>v\<close> is not offered, and the float of \<open>v\<close> otherwise.
\<close>

definition shows_column :: "'f float_ops \<Rightarrow> rat option \<Rightarrow> 'f option \<Rightarrow> bool" where
  "shows_column ops v out =
    (out = (if not_offered v then None else map_option (float_of ops) v))"

text \<open>
  The three rows of the specification's example: bookmaker \<open>a\<close> quotes the home side at
  2.10, \<open>b\<close> at 1.95, \<open>c\<close> does not quote it; nobody quotes the away side.
\<close>

definition spec_example_rows :: "snapshot_row list" where
  "spec_example_rows =
    [sample_row ''a'' 900000 (Some (21 / 10)) None,
     sample_row ''b'' 900000 (Some (39 / 20)) None,
     sample_row ''c'' 900000 None None]"


text \<open>One bookmaker whose home price is the zero of "not offered".\<close>

definition zero_price_rows :: "snapshot_row list" where
  "zero_price_rows = [sample_row ''a'' 900000 (Some 0) (Some 2)]"

section \<open>Properties of the registry\<close>

lemma lower_char_idem: "lower_char (lower_char c) = lower_char c"
  unfolding lower_char_def Let_def by auto

lemma isspace_lower_char: "isspace (lower_char c) = isspace c"
  unfolding lower_char_def isspace_def Let_def by auto

lemma lower_idem: "lower (lower s) = lower s"
  by (simp add: lower_def lower_char_idem)

lemma strip_lower: "strip (lower s) = lower (strip s)"
  by (simp add: strip_def lower_def dropWhile_map rev_map comp_def isspace_lower_char)

lemma dropWhile_rev_dropWhile:
  "dropWhile P (rev (dropWhile P (rev (dropWhile P s)))) = rev (dropWhile P (rev (dropWhile P s)))"
proof -
  define t where "t = dropWhile P s"
  define u where "u = dropWhile P (rev t)"
  have "dropWhile P (rev u) = rev u"
  proof (cases "u = []")
    case True
    then show ?thesis by simp
  next
    case False
    have split: "rev t = takeWhile P (rev t) @ u"
      by (simp add: u_def)
    from False have t_ne: "t \<noteq> []"
      by (auto simp: u_def)
    from split False have "last (rev t) = last u"
      by (metis last_appendR)
    with t_ne have "hd t = last u"
      by (simp add: last_rev)
    moreover from t_ne have "\<not> P (hd t)"
      unfolding t_def by (rule hd_dropWhile)
    ultimately have "\<not> P (hd (rev u))"
      using False by (simp add: hd_rev)
    with False show ?thesis
      by (cases "rev u") auto
  qed
  then show ?thesis
    by (simp add: t_def u_def)
qed

lemma strip_idem: "strip (strip s) = strip s"
  unfolding strip_def
  by (simp add: dropWhile_rev_dropWhile)

lemma norm_idem: "lower (strip (lower (strip s))) = lower (strip s)"
  by (simp add: strip_lower strip_idem lower_idem)

lemma alias_canonical_fixed:
  "map_of ALIASES k = Some c \<Longrightarrow> normalize_key (JStr c) = Inr c"
proof -
  assume "map_of ALIASES k = Some c"
  then have "(k, c) \<in> set ALIASES" by (rule map_of_SomeD)
  then have "c \<in> {''betright'', ''betfair_ex_au'', ''pointsbetau'', ''sportsbet'', ''unibet'', ''tab''}"
    by (auto simp: ALIASES_def)
  then show ?thesis
    by (auto simp add: normalize_key_def strip_def lower_def lower_char_def isspace_def ALIASES_def)
qed

lemma normalize_key_str:
  "normalize_key (JStr s) =
     Inr (case map_of ALIASES (lower (strip s)) of Some c \<Rightarrow> c | None \<Rightarrow> lower (strip s))"
proof (cases "s = []")
  case True
  then show ?thesis by (simp add: normalize_key_def strip_def lower_def ALIASES_def)
next
  case False
  then show ?thesis by (simp add: normalize_key_def Let_def)
qed

lemma normalize_key_idem_str:
  "\<exists>n. normalize_key (JStr s) = Inr n \<and> normalize_key (JStr n) = Inr n"
proof (cases "map_of ALIASES (lower (strip s))")
  case None
  then show ?thesis
    by (simp add: normalize_key_str norm_idem)
next
  case (Some c)
  then show ?thesis
    using alias_canonical_fixed [OF Some] by (simp add: normalize_key_str)
qed

text \<open>
  Claim C5. \<open>normalize_key\<close> returns a string for every argument of type
  \<open>Optional[str]\<close>: the empty string for \<open>None\<close> and for the empty string. It is
  idempotent: the normalised key is sent to itself. Every alias of the table \<open>ALIASES\<close>
  is sent to its canonical key, and that canonical key is sent to itself.
\<close>

theorem normalize_key_total_idempotent:
  "normalize_key (opt_str None) = Inr []
   \<and> normalize_key (opt_str (Some [])) = Inr []
   \<and> (\<forall>k. \<exists>n. normalize_key (opt_str k) = Inr n \<and> normalize_key (JStr n) = Inr n)
   \<and> (\<forall>(a, c) \<in> set ALIASES. normalize_key (JStr a) = Inr c \<and> normalize_key (JStr c) = Inr c)"
proof (intro conjI allI)
  show "normalize_key (opt_str None) = Inr []"
    by (simp add: normalize_key_def)
  show "normalize_key (opt_str (Some [])) = Inr []"
    by (simp add: normalize_key_def)
  show "\<exists>n. normalize_key (opt_str k) = Inr n \<and> normalize_key (JStr n) = Inr n" for k
  proof (cases k)
    case None
    then show ?thesis by (simp add: normalize_key_def)
  next
    case (Some s)
    then show ?thesis using normalize_key_idem_str [of s] by simp
  qed
  show "\<forall>(a, c) \<in> set ALIASES. normalize_key (JStr a) = Inr c \<and> normalize_key (JStr c) = Inr c"
    by (simp add: normalize_key_def strip_def lower_def lower_char_def isspace_def ALIASES_def)
qed

text \<open>
  The alias \<open>tab_au\<close> and a key with capitals and blanks around it.
\<close>

theorem normalize_key_total_idempotent_witness:
  "normalize_key (JStr ''tab_au'') = Inr ''tab'' \<and> normalize_key (JStr ''tab'') = Inr ''tab''
   \<and> (\<exists>n. normalize_key (JStr ''  Bet_Right '') = Inr n \<and> normalize_key (JStr n) = Inr n)"
proof -
  have "(''tab_au'', ''tab'') \<in> set ALIASES"
    by (simp add: ALIASES_def)
  moreover have "\<exists>n. normalize_key (opt_str (Some ''  Bet_Right '')) = Inr n \<and> normalize_key (JStr n) = Inr n"
    using normalize_key_total_idempotent by blast
  ultimately show ?thesis
    using normalize_key_total_idempotent by auto
qed

lemma normalize_key_opt:
  "normalize_key (opt_str k) =
     Inr (case k of None \<Rightarrow> []
          | Some s \<Rightarrow> (case map_of ALIASES (lower (strip s)) of Some c \<Rightarrow> c | None \<Rightarrow> lower (strip s)))"
  by (cases k) (simp_all add: normalize_key_str, simp add: normalize_key_def)

lemma canonical_name_nonempty: "map_of CANONICAL_NAME nk = Some n \<Longrightarrow> n \<noteq> []"
  by (auto simp: CANONICAL_NAME_def split: if_splits)

lemma py_or_opt_str:
  "py_or (opt_str t) b = (case t of Some (c # cs) \<Rightarrow> JStr (c # cs) | _ \<Rightarrow> b)"
  by (cases t) (auto simp: py_or_def split: list.splits)

text \<open>
  Claim C6. For every key and fallback title of type \<open>Optional[str]\<close>,
  \<open>get_bookmaker_meta\<close> raises nothing. The name is the canonical name of the normalised
  key when the table \<open>CANONICAL_NAME\<close> has one, otherwise the title when it is a
  non-empty string, otherwise the key as given when it is a non-empty string, otherwise
  the empty string. The url is the entry of \<open>BOOKMAKER_URLS\<close> for the normalised key, so
  it is present exactly when the normalised key is in that table. The two examples of
  the specification: the unknown key \<open>unknownkey\<close> with the title \<open>Some Title\<close>, and the key
  \<open>tab\<close> without a title.
\<close>

theorem get_bookmaker_meta_resolution:
  "(\<exists>nk m. normalize_key (opt_str k) = Inr nk
      \<and> get_bookmaker_meta (opt_str k) (opt_str t) = Inr m
      \<and> meta_name m =
          (case map_of CANONICAL_NAME nk of
             Some n \<Rightarrow> JStr n
           | None \<Rightarrow>
               (case t of
                  Some (c # cs) \<Rightarrow> JStr (c # cs)
                | _ \<Rightarrow> (case k of Some (c # cs) \<Rightarrow> JStr (c # cs) | _ \<Rightarrow> JStr [])))
      \<and> meta_url m = map_of BOOKMAKER_URLS nk
      \<and> (meta_url m \<noteq> None) = (nk \<in> fst ` set BOOKMAKER_URLS))
   \<and> get_bookmaker_meta (JStr ''unknownkey'') (JStr ''Some Title'') =
        Inr \<lparr> meta_key = JStr ''unknownkey'', meta_name = JStr ''Some Title'', meta_url = None \<rparr>
   \<and> get_bookmaker_meta (JStr ''tab'') JNull =
        Inr \<lparr> meta_key = JStr ''tab'', meta_name = JStr ''TAB'',
              meta_url = Some ''https://www.tab.com.au/'' \<rparr>"
proof (intro conjI)
  obtain nk where nk: "normalize_key (opt_str k) = Inr nk"
    by (simp add: normalize_key_opt)
  let ?m = "\<lparr> meta_key = py_or (JStr nk) (py_or (opt_str k) (JStr [])),
               meta_name =
                 py_or (case map_of CANONICAL_NAME nk of None \<Rightarrow> JNull | Some n \<Rightarrow> JStr n)
                   (py_or (opt_str t) (py_or (opt_str k) (JStr []))),
               meta_url = map_of BOOKMAKER_URLS nk \<rparr>"
  have m: "get_bookmaker_meta (opt_str k) (opt_str t) = Inr ?m"
    by (simp add: get_bookmaker_meta_def nk)
  have name: "meta_name ?m =
          (case map_of CANONICAL_NAME nk of
             Some n \<Rightarrow> JStr n
           | None \<Rightarrow>
               (case t of
                  Some (c # cs) \<Rightarrow> JStr (c # cs)
                | _ \<Rightarrow> (case k of Some (c # cs) \<Rightarrow> JStr (c # cs) | _ \<Rightarrow> JStr [])))"
  proof (cases "map_of CANONICAL_NAME nk")
    case None
    then show ?thesis
      by (simp add: py_or_opt_str) (simp add: py_or_def)
  next
    case (Some n)
    with canonical_name_nonempty [OF Some] show ?thesis
      by (simp add: py_or_def)
  qed
  have url: "(meta_url ?m \<noteq> None) = (nk \<in> fst ` set BOOKMAKER_URLS)"
    by (simp add: map_of_eq_None_iff)
  show "\<exists>nk m. normalize_key (opt_str k) = Inr nk
      \<and> get_bookmaker_meta (opt_str k) (opt_str t) = Inr m
      \<and> meta_name m =
          (case map_of CANONICAL_NAME nk of
             Some n \<Rightarrow> JStr n
           | None \<Rightarrow>
               (case t of
                  Some (c # cs) \<Rightarrow> JStr (c # cs)
                | _ \<Rightarrow> (case k of Some (c # cs) \<Rightarrow> JStr (c # cs) | _ \<Rightarrow> JStr [])))
      \<and> meta_url m = map_of BOOKMAKER_URLS nk
      \<and> (meta_url m \<noteq> None) = (nk \<in> fst ` set BOOKMAKER_URLS)"
    using nk m name url by (intro exI [of _ nk] exI [of _ ?m]) simp
  show "get_bookmaker_meta (JStr ''unknownkey'') (JStr ''Some Title'') =
        Inr \<lparr> meta_key = JStr ''unknownkey'', meta_name = JStr ''Some Title'', meta_url = None \<rparr>"
    by (simp add: get_bookmaker_meta_def normalize_key_def strip_def lower_def lower_char_def
        isspace_def ALIASES_def CANONICAL_NAME_def BOOKMAKER_URLS_def py_or_def)
  show "get_bookmaker_meta (JStr ''tab'') JNull =
        Inr \<lparr> meta_key = JStr ''tab'', meta_name = JStr ''TAB'',
              meta_url = Some ''https://www.tab.com.au/'' \<rparr>"
    by (simp add: get_bookmaker_meta_def normalize_key_def strip_def lower_def lower_char_def
        isspace_def ALIASES_def CANONICAL_NAME_def BOOKMAKER_URLS_def py_or_def)
qed

text \<open>
  Claim C2 as stated fails: with no key and the non-empty title \<open>Some Title\<close> the
  \<open>key\<close> of the result is the empty string.
\<close>

theorem meta_key_empty_with_title:
  "get_bookmaker_meta (opt_str None) (opt_str (Some ''Some Title'')) =
     Inr \<lparr> meta_key = JStr [], meta_name = JStr ''Some Title'', meta_url = None \<rparr>"
  by (simp add: get_bookmaker_meta_def normalize_key_def CANONICAL_NAME_def BOOKMAKER_URLS_def
      py_or_def)

text \<open>
  Claim C2, amended. If the input key is a non-empty string, the \<open>key\<close> of the result of
  \<open>get_bookmaker_meta\<close> is a non-empty string, whatever the title is. (The title is
  used for the name only.)
\<close>

theorem meta_key_nonempty:
  assumes "k = Some s" and "s \<noteq> []"
  shows "\<exists>m r. get_bookmaker_meta (opt_str k) (opt_str t) = Inr m
           \<and> meta_key m = JStr r \<and> r \<noteq> []"
proof -
  obtain nk where nk: "normalize_key (opt_str k) = Inr nk"
    by (simp add: normalize_key_opt)
  then have "get_bookmaker_meta (opt_str k) (opt_str t) =
      Inr \<lparr> meta_key = py_or (JStr nk) (py_or (opt_str k) (JStr [])),
            meta_name =
              py_or (case map_of CANONICAL_NAME nk of None \<Rightarrow> JNull | Some n \<Rightarrow> JStr n)
                (py_or (opt_str t) (py_or (opt_str k) (JStr []))),
            meta_url = map_of BOOKMAKER_URLS nk \<rparr>"
    by (simp add: get_bookmaker_meta_def)
  moreover have "\<exists>r. py_or (JStr nk) (py_or (opt_str k) (JStr [])) = JStr r \<and> r \<noteq> []"
    using assms by (cases "nk = []") (simp_all add: py_or_def)
  ultimately show ?thesis by auto
qed

text \<open>
  A key of three blanks: it normalises to the empty string, and the \<open>key\<close> of the result
  falls back to the key as given.
\<close>

theorem meta_key_nonempty_witness:
  "\<exists>m r. get_bookmaker_meta (opt_str (Some ''   '')) (opt_str None) = Inr m
           \<and> meta_key m = JStr r \<and> r \<noteq> []"
  using meta_key_nonempty [of "Some ''   ''" "''   ''" None] by simp

section \<open>Properties of the upstream table formatter\<close>

lemma ebind_Inr [simp]: "ebind (Inr x) f = f x"
  by (simp add: ebind_def)

lemma ebind_Inl [simp]: "ebind (Inl e) f = Inl e"
  by (simp add: ebind_def)

lemma ebind_eq_Inr: "ebind m f = Inr y \<Longrightarrow> \<exists>x. m = Inr x \<and> f x = Inr y"
  by (cases m) simp_all

lemma emap_Inr: "emap f xs = Inr ys \<Longrightarrow> list_all2 (\<lambda>x y. f x = Inr y) xs ys"
  by (induction xs arbitrary: ys) (auto split: sum.splits)

lemma emap_all_Inr: "emap f xs = Inr ys \<Longrightarrow> x \<in> set xs \<Longrightarrow> \<exists>y. f x = Inr y"
  by (induction xs arbitrary: ys) (auto split: sum.splits)

subsection \<open>The upstream failure\<close>

lemma json_escape_char_nonempty: "json_escape_char c \<noteq> []"
  by (simp add: json_escape_char_def Let_def)

lemma length_json_escape: "length s \<le> length (concat (map json_escape_char s))"
proof (induction s)
  case Nil
  then show ?case by simp
next
  case (Cons c s)
  have "1 \<le> length (json_escape_char c)"
    using json_escape_char_nonempty [of c] by (cases "json_escape_char c") simp_all
  with Cons show ?case by simp
qed

lemma length_json_quote: "length s < length (json_quote s)"
  using length_json_escape [of s] by (simp add: json_quote_def)

lemma error_body:
  "json_dumps repr (JObj [(''error'', JStr t)]) = ''{'' @ json_quote ''error'' @ '':'' @ json_quote t @ ''}''"
  by simp

text \<open>
  Claim C1, amended. For every upstream response whose status code is not 200,
  \<open>odds_table\<close> returns a response with the upstream's status code whose content is the
  object with the one member \<open>error\<close>, holding the upstream's response text unchanged.
  The body sent is the JSON text of that object, which is never the upstream's text
  itself.
\<close>

theorem odds_table_upstream_failure:
  assumes "up_status r \<noteq> 200"
  shows "\<exists>resp. odds_table repr r = Inr resp
           \<and> resp_status resp = up_status r
           \<and> resp_content resp = JObj [(''error'', JStr (up_text r))]
           \<and> response_body repr resp = ''{'' @ json_quote ''error'' @ '':'' @ json_quote (up_text r) @ ''}''
           \<and> response_body repr resp \<noteq> up_text r"
proof -
  let ?resp = "\<lparr> resp_status = up_status r, resp_content = JObj [(''error'', JStr (up_text r))] \<rparr>"
  have "odds_table repr r = Inr ?resp"
    using assms by (simp add: odds_table_def)
  moreover have body: "response_body repr ?resp = ''{'' @ json_quote ''error'' @ '':'' @ json_quote (up_text r) @ ''}''"
    by (simp add: response_body_def)
  moreover have "length (up_text r) < length (response_body repr ?resp)"
    using length_json_quote [of "up_text r"] by (simp add: body)
  then have "response_body repr ?resp \<noteq> up_text r"
    by auto
  ultimately show ?thesis
    by (intro exI [of _ ?resp]) simp
qed

text \<open>
  An upstream 401 with the body \<open>Unauthorized\<close>.
\<close>

theorem odds_table_upstream_failure_witness:
  "\<exists>resp. odds_table (\<lambda>v. []) \<lparr> up_status = 401, up_text = ''Unauthorized'', up_json = None \<rparr> = Inr resp
           \<and> resp_status resp = 401
           \<and> resp_content resp = JObj [(''error'', JStr ''Unauthorized'')]"
  using odds_table_upstream_failure [of "\<lparr> up_status = 401, up_text = ''Unauthorized'', up_json = None \<rparr>" "\<lambda>v. []"]
  by auto

text \<open>
  Claim C1 as stated fails: for an upstream 401 with the body \<open>Unauthorized\<close> the caller
  receives the status 401, but the body is the text \<open>{"error":"Unauthorized"}\<close>, not the
  upstream's body.
\<close>

theorem upstream_body_not_verbatim:
  "odds_table (\<lambda>v. []) \<lparr> up_status = 401, up_text = ''Unauthorized'', up_json = None \<rparr>
     = Inr \<lparr> resp_status = 401, resp_content = JObj [(''error'', JStr ''Unauthorized'')] \<rparr>
   \<and> response_body (\<lambda>v. []) \<lparr> resp_status = 401, resp_content = JObj [(''error'', JStr ''Unauthorized'')] \<rparr>
     = ''{'' @ [CHR 0x22] @ ''error'' @ [CHR 0x22] @ '':'' @ [CHR 0x22] @ ''Unauthorized'' @ [CHR 0x22] @ ''}''
   \<and> response_body (\<lambda>v. []) \<lparr> resp_status = 401, resp_content = JObj [(''error'', JStr ''Unauthorized'')] \<rparr>
     \<noteq> ''Unauthorized''"
  by (simp add: odds_table_def response_body_def json_quote_def json_escape_char_def)

subsection \<open>Sorting\<close>

lemma sort_rows_Inr:
  assumes "sort_rows rows = Inr out"
  shows "out = sort_key sort_name_of rows"
    and "x \<in> set rows \<Longrightarrow> sort_name x = Inr (sort_name_of x)"
proof -
  from assms obtain ks where ks: "emap sort_name rows = Inr ks" and out: "out = sort_key sort_name_of rows"
    unfolding sort_rows_def by (auto dest!: ebind_eq_Inr)
  show "out = sort_key sort_name_of rows" by (rule out)
  show "sort_name x = Inr (sort_name_of x)" if "x \<in> set rows"
    using emap_all_Inr [OF ks that] by (auto simp: sort_name_of_def)
qed

lemma sort_name_Inr:
  assumes "sort_name x = Inr k"
  shows "k = (case row_bookmaker x of JStr s \<Rightarrow> lower s | _ \<Rightarrow> [])"
    and "truthy (row_bookmaker x) \<Longrightarrow> \<exists>s. row_bookmaker x = JStr s"
  using assms
  by (cases "row_bookmaker x"; auto simp: sort_name_def py_or_def lower_def split: if_splits json.splits)+

lemma format_event_Inr:
  assumes "format_event repr ev = Inr m"
  shows "\<exists>label start rows. event_rows repr ev = Inr (label, start, rows)
           \<and> sort_rows rows = Inr (match_rows m)"
  using assms unfolding format_event_def
  by (auto dest!: ebind_eq_Inr)

text \<open>
  Claim C8. When the upstream answers 200 and \<open>odds_table\<close> returns, the content lists one
  match for each upstream event, and the rows of each match are the rows built for the
  event's bookmaker entries (in upstream order), rearranged so that their sort keys
  ascend: the same rows as a multiset, and the rows of any one sort key in their
  original relative order (a stable sort). The sort key of a row is its display name in
  lower case, and the empty string (which sorts first) when the name is not a string.
\<close>

theorem odds_table_rows_sorted:
  assumes "up_status r = 200" and "odds_table repr r = Inr resp"
  shows "\<exists>d evs matches.
           up_json r = Some d \<and> py_iter d = Inr evs
           \<and> resp_content resp =
               JObj [(''columns'', JArr (map JStr columns)),
                     (''matches'', JArr (map match_json matches))]
           \<and> list_all2 (\<lambda>ev m. \<exists>label start rows.
                 event_rows repr ev = Inr (label, start, rows)
                 \<and> sorted (map sort_name_of (match_rows m))
                 \<and> mset (match_rows m) = mset rows
                 \<and> (\<forall>k. filter (\<lambda>x. sort_name_of x = k) (match_rows m)
                          = filter (\<lambda>x. sort_name_of x = k) rows)
                 \<and> (\<forall>x \<in> set rows.
                       sort_name_of x = (case row_bookmaker x of JStr s \<Rightarrow> lower s | _ \<Rightarrow> [])))
               evs matches"
proof -
  from assms obtain d evs matches where d: "up_json r = Some d"
    and evs: "py_iter d = Inr evs"
    and ms: "emap (format_event repr) evs = Inr matches"
    and resp: "resp_content resp =
               JObj [(''columns'', JArr (map JStr columns)),
                     (''matches'', JArr (map match_json matches))]"
    unfolding odds_table_def
    by (auto dest!: ebind_eq_Inr split: option.splits)
  have "list_all2 (\<lambda>ev m. format_event repr ev = Inr m) evs matches"
    using ms by (rule emap_Inr)
  then have "list_all2 (\<lambda>ev m. \<exists>label start rows.
                 event_rows repr ev = Inr (label, start, rows)
                 \<and> sorted (map sort_name_of (match_rows m))
                 \<and> mset (match_rows m) = mset rows
                 \<and> (\<forall>k. filter (\<lambda>x. sort_name_of x = k) (match_rows m)
                          = filter (\<lambda>x. sort_name_of x = k) rows)
                 \<and> (\<forall>x \<in> set rows.
                       sort_name_of x = (case row_bookmaker x of JStr s \<Rightarrow> lower s | _ \<Rightarrow> [])))
               evs matches"
  proof (rule list_all2_mono)
    fix ev m
    assume "format_event repr ev = Inr m"
    then obtain label start rows where rows: "event_rows repr ev = Inr (label, start, rows)"
      and sorted_rows: "sort_rows rows = Inr (match_rows m)"
      using format_event_Inr by blast
    have eq: "match_rows m = sort_key sort_name_of rows"
      using sorted_rows by (rule sort_rows_Inr)
    have "sort_name_of x = (case row_bookmaker x of JStr s \<Rightarrow> lower s | _ \<Rightarrow> [])"
      if "x \<in> set rows" for x
      using sort_rows_Inr(2) [OF sorted_rows that] by (rule sort_name_Inr)
    then show "\<exists>label start rows.
                 event_rows repr ev = Inr (label, start, rows)
                 \<and> sorted (map sort_name_of (match_rows m))
                 \<and> mset (match_rows m) = mset rows
                 \<and> (\<forall>k. filter (\<lambda>x. sort_name_of x = k) (match_rows m)
                          = filter (\<lambda>x. sort_name_of x = k) rows)
                 \<and> (\<forall>x \<in> set rows.
                       sort_name_of x = (case row_bookmaker x of JStr s \<Rightarrow> lower s | _ \<Rightarrow> []))"
      using rows by (auto simp: eq sort_key_stable)
  qed
  with d evs resp show ?thesis by blast
qed

text \<open>
  The sample event: the rows are built in the order TAB, Unibet, betr and come out as
  betr, TAB, Unibet (by code points \<open>TAB\<close> would come before \<open>betr\<close>).
\<close>

theorem odds_table_rows_sorted_witness:
  "(\<exists>resp. odds_table (\<lambda>v. [])
        \<lparr> up_status = 200, up_text = [], up_json = Some (JArr [sample_event]) \<rparr> = Inr resp
      \<and> (\<exists>d evs matches.
           up_json \<lparr> up_status = 200, up_text = [], up_json = Some (JArr [sample_event]) \<rparr> = Some d
           \<and> py_iter d = Inr evs
           \<and> resp_content resp =
               JObj [(''columns'', JArr (map JStr columns)),
                     (''matches'', JArr (map match_json matches))]
           \<and> list_all2 (\<lambda>ev m. \<exists>label start rows.
                 event_rows (\<lambda>v. []) ev = Inr (label, start, rows)
                 \<and> sorted (map sort_name_of (match_rows m))
                 \<and> mset (match_rows m) = mset rows
                 \<and> (\<forall>k. filter (\<lambda>x. sort_name_of x = k) (match_rows m)
                          = filter (\<lambda>x. sort_name_of x = k) rows)
                 \<and> (\<forall>x \<in> set rows.
                       sort_name_of x = (case row_bookmaker x of JStr s \<Rightarrow> lower s | _ \<Rightarrow> [])))
               evs matches))
   \<and> (case event_rows (\<lambda>v. []) sample_event of
         Inl e \<Rightarrow> []
       | Inr (label, start, rows) \<Rightarrow> map row_bookmaker rows)
       = [JStr ''TAB'', JStr ''Unibet'', JStr ''betr'']
   \<and> (case format_event (\<lambda>v. []) sample_event of
         Inl e \<Rightarrow> []
       | Inr m \<Rightarrow> map row_bookmaker (match_rows m))
       = [JStr ''betr'', JStr ''TAB'', JStr ''Unibet'']"
proof -
  let ?r = "\<lparr> up_status = 200, up_text = [], up_json = Some (JArr [sample_event]) \<rparr>"
  have "case odds_table (\<lambda>v. []) ?r of Inl e \<Rightarrow> False | Inr resp \<Rightarrow> True"
    by code_simp
  then obtain resp where resp: "odds_table (\<lambda>v. []) ?r = Inr resp"
    by (auto split: sum.splits)
  have status: "up_status ?r = 200"
    by simp
  note main = odds_table_rows_sorted [OF status resp]
  have order_before: "(case event_rows (\<lambda>v. []) sample_event of
         Inl e \<Rightarrow> []
       | Inr (label, start, rows) \<Rightarrow> map row_bookmaker rows)
       = [JStr ''TAB'', JStr ''Unibet'', JStr ''betr'']"
    by code_simp
  have order_after: "(case format_event (\<lambda>v. []) sample_event of
         Inl e \<Rightarrow> []
       | Inr m \<Rightarrow> map row_bookmaker (match_rows m))
       = [JStr ''betr'', JStr ''TAB'', JStr ''Unibet'']"
    by code_simp
  show ?thesis
    by (intro conjI exI [of _ resp]) (rule resp main order_before order_after)+
qed

subsection \<open>The guard of the market formatters\<close>










section \<open>Properties of the read endpoints\<close>

subsection \<open>The comparison of the event detail\<close>

lemma py_max_Max: "py_max x xs = Max (set (x # xs))"
proof -
  have "foldl (\<lambda>m y. if y > m then y else m) x xs = Max (insert x (set xs))" for x :: 'a
  proof (induction xs arbitrary: x)
    case Nil
    then show ?case by simp
  next
    case (Cons a xs)
    have "Max (insert (if x < a then a else x) (set xs)) = Max (insert x (insert a (set xs)))"
    proof (cases "set xs = {}")
      case True
      then show ?thesis by (auto simp: max_def)
    next
      case False
      then show ?thesis by (auto simp: max_def)
    qed
    with Cons show ?case by simp
  qed
  then show ?thesis by (simp add: py_max_def)
qed

lemma py_min_Min: "py_min x xs = Min (set (x # xs))"
proof -
  have "foldl (\<lambda>m y. if y < m then y else m) x xs = Min (insert x (set xs))" for x :: 'a
  proof (induction xs arbitrary: x)
    case Nil
    then show ?case by simp
  next
    case (Cons a xs)
    have "Min (insert (if a < x then a else x) (set xs)) = Min (insert x (insert a (set xs)))"
    proof (cases "set xs = {}")
      case True
      then show ?thesis by (auto simp: min_def)
    next
      case False
      then show ?thesis by (auto simp: min_def)
    qed
    with Cons show ?case by simp
  qed
  then show ?thesis by (simp add: py_min_def)
qed

lemma comparison_entry_spec:
  "map_of (comparison_entry ops name prices) name = spec_side_comparison ops prices"
  by (cases prices) (simp_all add: comparison_entry_def spec_side_comparison_def py_max_Max py_min_Min)

lemma comparison_entry_key:
  "(n, c) \<in> set (comparison_entry ops name prices) \<Longrightarrow> n = name"
  by (cases prices) (simp_all add: comparison_entry_def)

lemma comparison_entry_other:
  "name' \<noteq> name \<Longrightarrow> map_of (comparison_entry ops name prices) name' = None"
  by (cases prices) (simp_all add: comparison_entry_def)

lemma collect_home:
  "collect_prices ops home_h2h_price rows = non_absent (map h2h_home (map (bookmaker_odds_of ops) rows))"
  by (induction rows)
    (auto simp: collect_prices_def non_absent_def bookmaker_odds_of_def opt_float_def split: option.splits)

lemma collect_away:
  "collect_prices ops away_h2h_price rows = non_absent (map h2h_away (map (bookmaker_odds_of ops) rows))"
  by (induction rows)
    (auto simp: collect_prices_def non_absent_def bookmaker_odds_of_def opt_float_def split: option.splits)

lemma get_event_detail_rows:
  assumes "detail_query table eid \<noteq> []"
  shows "get_event_detail ops table eid =
    Inr \<lparr> ed_event_id = eid,
          ed_sport_key = sport_key (hd (detail_query table eid)),
          ed_home_team = home_team (hd (detail_query table eid)),
          ed_away_team = away_team (hd (detail_query table eid)),
          ed_commence_time = commence_time (hd (detail_query table eid)),
          current_odds = map (bookmaker_odds_of ops) (detail_query table eid),
          odds_comparison =
            comparison_entry ops ''h2h_home''
              (collect_prices ops home_h2h_price (detail_query table eid))
            @ comparison_entry ops ''h2h_away''
                (collect_prices ops away_h2h_price (detail_query table eid)) \<rparr>"
  using assms by (cases "detail_query table eid") (simp_all add: get_event_detail_def Let_def)

text \<open>
  Claim C4. When the detail query returns rows, \<open>get_event_detail\<close> returns a result
  whose \<open>odds_comparison\<close> has, for each head-to-head side, exactly what the specification
  asks of the non-absent prices of that side over all bookmaker entries of the result:
  no key when there is no such price, and otherwise the maximum as \<open>best\<close>, the minimum as
  \<open>worst\<close> and the sum divided by the count as \<open>average\<close> (sum and quotient as the float
  arithmetic computes them). It has no other key. A value of \<open>odds_comparison\<close> is a
  comparison, never \<open>None\<close>, so an absent side is an absent key.
\<close>

theorem odds_comparison_per_side:
  assumes "detail_query table eid \<noteq> []"
  shows "\<exists>d. get_event_detail ops table eid = Inr d
           \<and> current_odds d = map (bookmaker_odds_of ops) (detail_query table eid)
           \<and> map_of (odds_comparison d) ''h2h_home''
               = spec_side_comparison ops (non_absent (map h2h_home (current_odds d)))
           \<and> map_of (odds_comparison d) ''h2h_away''
               = spec_side_comparison ops (non_absent (map h2h_away (current_odds d)))
           \<and> fst ` set (odds_comparison d) \<subseteq> {''h2h_home'', ''h2h_away''}"
proof -
  let ?rows = "detail_query table eid"
  let ?home = "comparison_entry ops ''h2h_home'' (collect_prices ops home_h2h_price ?rows)"
  let ?away = "comparison_entry ops ''h2h_away'' (collect_prices ops away_h2h_price ?rows)"
  have no_home: "map_of ?away ''h2h_home'' = None"
    by (rule comparison_entry_other) simp
  have no_away: "map_of ?home ''h2h_away'' = None"
    by (rule comparison_entry_other) simp
  have home: "map_of (?home @ ?away) ''h2h_home''
      = spec_side_comparison ops (non_absent (map h2h_home (map (bookmaker_odds_of ops) ?rows)))"
    unfolding map_of_append map_add_def collect_home [symmetric]
    by (simp only: no_home comparison_entry_spec split: option.splits) simp
  have away: "map_of (?home @ ?away) ''h2h_away''
      = spec_side_comparison ops (non_absent (map h2h_away (map (bookmaker_odds_of ops) ?rows)))"
    unfolding map_of_append map_add_def collect_away [symmetric]
    by (simp only: no_away comparison_entry_spec split: option.splits) simp
  have keys: "fst ` set (?home @ ?away) \<subseteq> {''h2h_home'', ''h2h_away''}"
    by (auto dest: comparison_entry_key)
  show ?thesis
    using home away keys by (simp add: get_event_detail_rows [OF assms])
qed

text \<open>
  The example of the specification, in exact arithmetic: home prices 2.10, 1.95 and
  absent give best 2.10, worst 1.95 and average 2.025, and there is no away key.
\<close>

theorem odds_comparison_per_side_witness:
  "detail_query spec_example_rows ''E1'' \<noteq> []
   \<and> (\<exists>d. get_event_detail exact_ops spec_example_rows ''E1'' = Inr d
         \<and> map_of (odds_comparison d) ''h2h_home''
             = Some \<lparr> best = 21 / 10, worst = 39 / 20, average = 81 / 40 \<rparr>
         \<and> map_of (odds_comparison d) ''h2h_away'' = None)"
proof -
  have rows: "detail_query spec_example_rows ''E1'' \<noteq> []"
    by code_simp
  have home: "spec_side_comparison exact_ops
      (non_absent (map h2h_home (map (bookmaker_odds_of exact_ops) (detail_query spec_example_rows ''E1''))))
      = Some \<lparr> best = 21 / 10, worst = 39 / 20, average = 81 / 40 \<rparr>"
    by code_simp
  have away: "spec_side_comparison exact_ops
      (non_absent (map h2h_away (map (bookmaker_odds_of exact_ops) (detail_query spec_example_rows ''E1''))))
      = None"
    by code_simp
  from odds_comparison_per_side [OF rows, of exact_ops] home away rows show ?thesis
    by auto
qed

subsection \<open>Zero is absent\<close>

lemma opt_float_shows: "shows_column ops v (opt_float ops v)"
  by (cases v) (simp_all add: shows_column_def opt_float_def not_offered_def)

lemma opt_float_None: "(opt_float ops v = None) = not_offered v"
  by (cases v) (simp_all add: opt_float_def not_offered_def)

lemma odds_fields_of_row:
  "list_all2 (shows_column ops) (price_columns r) (odds_fields (bookmaker_odds_of ops r))"
  by (simp add: price_columns_def odds_fields_def bookmaker_odds_of_def opt_float_shows)

lemma point_values_of_row:
  "list_all2 (shows_column ops) (market_columns mt r) (map snd (point_values ops mt r))"
  by (simp add: market_columns_def point_values_def opt_float_shows)

lemma list_all2_map_self: "(\<And>x. x \<in> set xs \<Longrightarrow> P x (f x)) \<Longrightarrow> list_all2 P xs (map f xs)"
  by (induction xs) auto

lemma group_events_entries:
  assumes "\<And>k e b. (k, e) \<in> set d \<Longrightarrow> b \<in> set (ev_bookmakers e) \<Longrightarrow> Q b"
    and "\<And>row. row \<in> set rows \<Longrightarrow> Q (bookmaker_odds_of ops (re_odds row))"
    and "(k, e) \<in> set (group_events ops sk rows d)" and "b \<in> set (ev_bookmakers e)"
  shows "Q b"
  using assms
proof (induction rows arbitrary: d)
  case Nil
  then show ?case by auto
next
  case (Cons row rows)
  define new_event :: "'a event" where
    "new_event = \<lparr> ev_event_id = re_event_id row,
                   ev_sport_key = sk,
                   ev_home_team = re_home_team row,
                   ev_away_team = re_away_team row,
                   ev_commence_time = re_commence_time row,
                   ev_bookmakers = [],
                   ev_is_live = re_is_live row \<rparr>"
  define d1 where
    "d1 = (if map_of d (re_event_id row) = None then d @ [(re_event_id row, new_event)] else d)"
  define add :: "string \<times> 'a event \<Rightarrow> string \<times> 'a event" where
    "add = (\<lambda>(k, e).
              if k = re_event_id row
              then (k, e\<lparr> ev_bookmakers := ev_bookmakers e @ [bookmaker_odds_of ops (re_odds row)] \<rparr>)
              else (k, e))"
  have step: "group_events ops sk (row # rows) d = group_events ops sk rows (map add d1)"
    by (simp add: Let_def d1_def add_def new_event_def)
  have new: "Q (bookmaker_odds_of ops (re_odds row))"
    using Cons.prems(2) by simp
  have in_d1: "Q b'" if "(k', e') \<in> set d1" and "b' \<in> set (ev_bookmakers e')" for k' e' b'
  proof -
    from that(1) have "(k', e') \<in> set d \<or> e' = new_event"
      by (cases "map_of d (re_event_id row) = None") (auto simp: d1_def)
    then show ?thesis
    proof
      assume "(k', e') \<in> set d"
      then show ?thesis using that(2) by (rule Cons.prems(1))
    next
      assume "e' = new_event"
      with that(2) show ?thesis by (simp add: new_event_def)
    qed
  qed
  have in_d2: "Q b'" if "(k', e') \<in> set (map add d1)" and "b' \<in> set (ev_bookmakers e')" for k' e' b'
  proof -
    from that(1) obtain p where p: "p \<in> set d1" and eq: "(k', e') = add p"
      by auto
    obtain k0 e0 where p_eq: "p = (k0, e0)"
      by (cases p)
    have "b' \<in> set (ev_bookmakers e0) \<or> b' = bookmaker_odds_of ops (re_odds row)"
      using eq that(2) by (cases "k0 = re_event_id row") (auto simp: p_eq add_def)
    then show ?thesis
    proof
      assume "b' \<in> set (ev_bookmakers e0)"
      with p show ?thesis unfolding p_eq by (rule in_d1)
    next
      assume "b' = bookmaker_odds_of ops (re_odds row)"
      with new show ?thesis by simp
    qed
  qed
  show ?case
  proof (rule Cons.IH [of "map add d1"])
    show "Q b'" if "(k', e') \<in> set (map add d1)" and "b' \<in> set (ev_bookmakers e')" for k' e' b'
      using that by (rule in_d2)
    show "Q (bookmaker_odds_of ops (re_odds r))" if "r \<in> set rows" for r
      using that Cons.prems(2) by simp
    show "(k, e) \<in> set (group_events ops sk rows (map add d1))"
      using Cons.prems(3) by (simp only: step)
    show "b \<in> set (ev_bookmakers e)"
      by (rule Cons.prems(4))
  qed
qed

lemma get_sport_events_entries:
  assumes "get_sport_events ops table now sk = Inr evs" and "e \<in> set evs"
    and "b \<in> set (ev_bookmakers e)"
  shows "\<exists>row \<in> set (events_query table now sk).
           list_all2 (shows_column ops) (price_columns (re_odds row)) (odds_fields b)"
proof -
  let ?rows = "events_query table now sk"
  from assms(1,2) obtain k where k: "(k, e) \<in> set (group_events ops sk ?rows [])"
    by (auto simp: get_sport_events_def Let_def split: if_splits)
  show ?thesis
  proof (rule group_events_entries [OF _ _ k assms(3)])
    show "\<exists>r \<in> set ?rows. list_all2 (shows_column ops) (price_columns (re_odds r))
            (odds_fields (bookmaker_odds_of ops (re_odds row)))"
      if "row \<in> set ?rows" for row
      using that odds_fields_of_row by blast
  qed simp
qed

text \<open>
  Claim C3. A price or point that is \<open>NULL\<close> or zero becomes \<open>None\<close>, and only such a
  value does. Every \<open>BookmakerOdds\<close> of the event list and of the event detail, and every
  history point, shows each of its columns in this way: \<open>None\<close> for a value that is not
  offered, the float of the value otherwise.
\<close>

theorem zero_price_is_absent:
  fixes ops :: "('f::linorder) float_ops"
  shows "((opt_float ops v = None) = not_offered v)
   \<and> (\<forall>evs. get_sport_events ops table now sk = Inr evs \<longrightarrow>
        (\<forall>e \<in> set evs. \<forall>b \<in> set (ev_bookmakers e).
           \<exists>row \<in> set (events_query table now sk).
             list_all2 (shows_column ops) (price_columns (re_odds row)) (odds_fields b)))
   \<and> (\<forall>d. get_event_detail ops table eid = Inr d \<longrightarrow>
        list_all2 (\<lambda>r b. list_all2 (shows_column ops) (price_columns r) (odds_fields b))
          (detail_query table eid) (current_odds d))
   \<and> (\<forall>h. get_event_history ops table now eid mt bk hours = Inr h \<longrightarrow>
        list_all2 (\<lambda>r p. list_all2 (shows_column ops) (market_columns mt r) (map snd (pt_values p)))
          (history_query table now eid hours bk) (history h))"
proof (intro conjI allI impI)
  show "(opt_float ops v = None) = not_offered v"
    by (rule opt_float_None)
next
  fix evs
  assume "get_sport_events ops table now sk = Inr evs"
  then show "\<forall>e \<in> set evs. \<forall>b \<in> set (ev_bookmakers e).
           \<exists>row \<in> set (events_query table now sk).
             list_all2 (shows_column ops) (price_columns (re_odds row)) (odds_fields b)"
    using get_sport_events_entries by blast
next
  fix d
  assume d: "get_event_detail ops table eid = Inr d"
  then have "detail_query table eid \<noteq> []"
    by (auto simp: get_event_detail_def)
  from get_event_detail_rows [OF this, of ops] d
  have "current_odds d = map (bookmaker_odds_of ops) (detail_query table eid)"
    by auto
  then show "list_all2 (\<lambda>r b. list_all2 (shows_column ops) (price_columns r) (odds_fields b))
          (detail_query table eid) (current_odds d)"
    by (simp add: list_all2_map2 list_all2_same odds_fields_of_row)
next
  fix h
  assume "get_event_history ops table now eid mt bk hours = Inr h"
  then have "history h = map (\<lambda>r. \<lparr> pt_timestamp = snapshot_at r,
                                         pt_bookmaker = bookmaker_key r,
                                         pt_market_type = mt,
                                         pt_values = point_values ops mt r \<rparr>)
                 (history_query table now eid hours bk)"
    by (auto simp: get_event_history_def Let_def split: if_splits option.splits)
  moreover have "list_all2 (shows_column ops) (market_columns mt r)
          (map snd (pt_values \<lparr> pt_timestamp = snapshot_at r, pt_bookmaker = bookmaker_key r,
                                 pt_market_type = mt, pt_values = point_values ops mt r \<rparr>))" for r
    using point_values_of_row [of ops mt r] by simp
  ultimately show "list_all2 (\<lambda>r p. list_all2 (shows_column ops) (market_columns mt r) (map snd (pt_values p)))
          (history_query table now eid hours bk) (history h)"
    by (simp only: list_all2_map_self)
qed

text \<open>
  A row whose home price is zero and whose away price is 2: the detail shows the home
  price as absent.
\<close>

theorem zero_price_is_absent_witness:
  "not_offered (Some 0)
   \<and> opt_float exact_ops (Some 0) = None
   \<and> (\<exists>d. get_event_detail exact_ops zero_price_rows ''E1'' = Inr d
         \<and> list_all2 (\<lambda>r b. list_all2 (shows_column exact_ops) (price_columns r) (odds_fields b))
             (detail_query zero_price_rows ''E1'') (current_odds d)
         \<and> map h2h_home (current_odds d) = [None]
         \<and> map h2h_away (current_odds d) = [Some 2])"
proof -
  have "case get_event_detail exact_ops zero_price_rows ''E1'' of
          Inl e \<Rightarrow> False
        | Inr d \<Rightarrow> map h2h_home (current_odds d) = [None] \<and> map h2h_away (current_odds d) = [Some 2]"
    by code_simp
  then obtain d where d: "get_event_detail exact_ops zero_price_rows ''E1'' = Inr d"
    and "map h2h_home (current_odds d) = [None]" "map h2h_away (current_odds d) = [Some 2]"
    by (auto split: sum.splits)
  moreover have "not_offered (Some 0)"
    by (simp add: not_offered_def)
  ultimately show ?thesis
    using zero_price_is_absent [of exact_ops "Some 0" zero_price_rows _ _ "''E1''"]
    by auto
qed

subsection \<open>The odds history: an unknown event and an empty window\<close>





subsection \<open>Bounds of the comparison\<close>








end
